theory Spec2Isabelle
  imports Complex_Main
begin

section \<open>Structural analysis engine (copilot/structural.py)\<close>

text \<open>
  The engine computes on Python floats. They are modelled as the real numbers: every
  arithmetic operation is the exact one, so rounding, overflow to infinity and underflow to
  zero are outside the model. What Python does beyond arithmetic is kept: a division whose
  divisor is zero raises \<open>ZeroDivisionError\<close> (Python never returns an infinity from
  \<open>/\<close>), and \<open>math.sqrt\<close> of a negative number raises \<open>ValueError\<close>. A call
  returns \<open>Inl\<close> of the error it raises or \<open>Inr\<close> of its result. The decimal
  literals of the source are the rationals they denote (\<open>1e9 = 10^9\<close>,
  \<open>0.01 = 1/100\<close>, \<open>0.7 = 7/10\<close>).
\<close>

subsection \<open>Errors\<close>

datatype error = ZeroDivisionError | ValueError

text \<open>Sequencing: the first statement that raises ends the call.\<close>

definition bind_result :: "error + 'a \<Rightarrow> ('a \<Rightarrow> error + 'b) \<Rightarrow> error + 'b" where
  "bind_result x f = (case x of Inl e \<Rightarrow> Inl e | Inr v \<Rightarrow> f v)"

text \<open>Python's \<open>x / y\<close> on numbers.\<close>

definition py_div :: "real \<Rightarrow> real \<Rightarrow> error + real" where
  "py_div x y = (if y = 0 then Inl ZeroDivisionError else Inr (x / y))"

text \<open>Python's \<open>math.sqrt\<close>.\<close>

definition math_sqrt :: "real \<Rightarrow> error + real" where
  "math_sqrt x = (if x < 0 then Inl ValueError else Inr (sqrt x))"

subsection \<open>Value types\<close>

record Material =
  name :: string
  youngs_modulus :: real
  yield_strength :: real
  density :: real
  cost_per_kg :: real

definition steel_a36 :: Material where
  "steel_a36 = \<lparr>name = ''Steel A36'', youngs_modulus = 200, yield_strength = 250,
     density = 7850, cost_per_kg = 3 / 2\<rparr>"

definition aluminum_6061 :: Material where
  "aluminum_6061 = \<lparr>name = ''Aluminum 6061-T6'', youngs_modulus = 69, yield_strength = 276,
     density = 2700, cost_per_kg = 7 / 2\<rparr>"

record BeamAnalysisResult =
  max_deflection :: real
  max_stress :: real
  max_moment :: real
  max_shear :: real
  safety_factor :: real
  weight :: real
  cost :: real

text \<open>
  \<open>is_safe(self, min_safety_factor=1.5)\<close>: the optional argument is \<open>None\<close> when the
  caller leaves it out, and the default is taken then.
\<close>

definition is_safe :: "BeamAnalysisResult \<Rightarrow> real option \<Rightarrow> bool" where
  "is_safe self min_safety_factor =
     (let threshold = (case min_safety_factor of None \<Rightarrow> 3 / 2 | Some t \<Rightarrow> t)
      in safety_factor self \<ge> threshold)"

subsection \<open>BeamAnalyzer\<close>

text \<open>
  A \<open>BeamAnalyzer\<close> holds its material and nothing else; the methods take it as their
  first argument. The span is called \<open>len\<close> (\<open>length\<close> in the source).
\<close>

definition simply_supported_point_load ::
  "Material \<Rightarrow> real \<Rightarrow> real \<Rightarrow> real \<Rightarrow> real \<Rightarrow> real \<Rightarrow> error + BeamAnalysisResult" where
  "simply_supported_point_load material len load load_position width height =
     bind_result (py_div (width * height ^ 3) 12) (\<lambda>I.
     let a = load_position; b = len - load_position in
     bind_result (py_div (load * a * b) len) (\<lambda>max_moment.
     let E = youngs_modulus material * 10 ^ 9 in
     bind_result
       (if \<bar>a - b\<bar> < 1 / 100
        then py_div (load * len ^ 3) (48 * E * I)
        else py_div (load * a ^ 2 * b ^ 2) (3 * E * I * len)) (\<lambda>max_deflection.
     let max_deflection_mm = max_deflection * 1000;
         c = height / 2 in
     bind_result (py_div (max_moment * c) I) (\<lambda>max_stress_pa.
     bind_result (py_div max_stress_pa (10 ^ 6)) (\<lambda>max_stress_mpa.
     bind_result (py_div (load * b) len) (\<lambda>shear_left.
     bind_result (py_div (load * a) len) (\<lambda>shear_right.
     let max_shear = max shear_left shear_right in
     bind_result (py_div (yield_strength material) max_stress_mpa) (\<lambda>safety_factor.
     let volume = len * width * height;
         weight = volume * density material;
         cost = weight * cost_per_kg material in
     Inr \<lparr>max_deflection = max_deflection_mm, max_stress = max_stress_mpa,
          max_moment = max_moment, max_shear = max_shear,
          safety_factor = safety_factor, weight = weight, cost = cost\<rparr>))))))))"

definition cantilever_beam ::
  "Material \<Rightarrow> real \<Rightarrow> real \<Rightarrow> real \<Rightarrow> real \<Rightarrow> error + BeamAnalysisResult" where
  "cantilever_beam material len load width height =
     bind_result (py_div (width * height ^ 3) 12) (\<lambda>I.
     let max_moment = load * len;
         E = youngs_modulus material * 10 ^ 9 in
     bind_result (py_div (load * len ^ 3) (3 * E * I)) (\<lambda>max_deflection.
     let max_deflection_mm = max_deflection * 1000;
         c = height / 2 in
     bind_result (py_div (max_moment * c) I) (\<lambda>max_stress_pa.
     bind_result (py_div max_stress_pa (10 ^ 6)) (\<lambda>max_stress_mpa.
     let max_shear = load in
     bind_result (py_div (yield_strength material) max_stress_mpa) (\<lambda>safety_factor.
     let volume = len * width * height;
         weight = volume * density material;
         cost = weight * cost_per_kg material in
     Inr \<lparr>max_deflection = max_deflection_mm, max_stress = max_stress_mpa,
          max_moment = max_moment, max_shear = max_shear,
          safety_factor = safety_factor, weight = weight, cost = cost\<rparr>)))))"

definition distributed_load_beam ::
  "Material \<Rightarrow> real \<Rightarrow> real \<Rightarrow> real \<Rightarrow> real \<Rightarrow> error + BeamAnalysisResult" where
  "distributed_load_beam material len load_per_length width height =
     bind_result (py_div (width * height ^ 3) 12) (\<lambda>I.
     let total_load = load_per_length * len in
     bind_result (py_div (load_per_length * len ^ 2) 8) (\<lambda>max_moment.
     let E = youngs_modulus material * 10 ^ 9 in
     bind_result (py_div (5 * load_per_length * len ^ 4) (384 * E * I)) (\<lambda>max_deflection.
     let max_deflection_mm = max_deflection * 1000;
         c = height / 2 in
     bind_result (py_div (max_moment * c) I) (\<lambda>max_stress_pa.
     bind_result (py_div max_stress_pa (10 ^ 6)) (\<lambda>max_stress_mpa.
     bind_result (py_div total_load 2) (\<lambda>max_shear.
     bind_result (py_div (yield_strength material) max_stress_mpa) (\<lambda>safety_factor.
     let volume = len * width * height;
         weight = volume * density material;
         cost = weight * cost_per_kg material in
     Inr \<lparr>max_deflection = max_deflection_mm, max_stress = max_stress_mpa,
          max_moment = max_moment, max_shear = max_shear,
          safety_factor = safety_factor, weight = weight, cost = cost\<rparr>)))))))"

subsection \<open>ColumnAnalyzer\<close>

text \<open>The dictionary returned by \<open>euler_buckling_load\<close>, one field for each key.\<close>

record ColumnBucklingResult =
  critical_load_n :: real
  critical_load_kn :: real
  slenderness_ratio :: real
  end_condition :: string
  is_long_column :: bool

definition K_factors :: "string \<rightharpoonup> real" where
  "K_factors = map_of [(''pinned-pinned'', 1), (''fixed-free'', 2),
     (''fixed-fixed'', 1 / 2), (''fixed-pinned'', 7 / 10)]"

text \<open>\<open>d.get(key, default)\<close>.\<close>

definition dict_get :: "('k \<rightharpoonup> 'v) \<Rightarrow> 'k \<Rightarrow> 'v \<Rightarrow> 'v" where
  "dict_get d k dflt = (case d k of None \<Rightarrow> dflt | Some v \<Rightarrow> v)"

definition euler_buckling_load ::
  "Material \<Rightarrow> real \<Rightarrow> real \<Rightarrow> real \<Rightarrow> string \<Rightarrow> error + ColumnBucklingResult" where
  "euler_buckling_load material len width height end_cond =
     (let K = dict_get K_factors end_cond 1 in
     bind_result (py_div (width * height ^ 3) 12) (\<lambda>I_horizontal.
     bind_result (py_div (height * width ^ 3) 12) (\<lambda>I_vertical.
     let I_min = min I_horizontal I_vertical;
         L_e = K * len;
         E = youngs_modulus material * 10 ^ 9 in
     bind_result (py_div (pi ^ 2 * E * I_min) (L_e ^ 2)) (\<lambda>P_cr.
     let A = width * height in
     bind_result (py_div I_min A) (\<lambda>r_squared.
     bind_result (math_sqrt r_squared) (\<lambda>r.
     bind_result (py_div L_e r) (\<lambda>slenderness.
     bind_result (py_div P_cr 1000) (\<lambda>P_cr_kn.
     Inr \<lparr>critical_load_n = P_cr, critical_load_kn = P_cr_kn,
          slenderness_ratio = slenderness, end_condition = end_cond,
          is_long_column = (slenderness > 120)\<rparr>))))))))"

section \<open>Evaluating a call\<close>

text \<open>
  Each operation either raises at its first zero divisor or returns the record of its
  closed forms. The lemmas below give both outcomes for each operation.
\<close>

lemma bind_result_Inr [simp]: "bind_result (Inr v) f = f v"
  by (simp add: bind_result_def)

lemma bind_result_Inl [simp]: "bind_result (Inl e) f = Inl e"
  by (simp add: bind_result_def)

lemma py_div_nonzero [simp]: "y \<noteq> 0 \<Longrightarrow> py_div x y = Inr (x / y)"
  by (simp add: py_div_def)

lemma py_div_zero [simp]: "py_div x 0 = Inl ZeroDivisionError"
  by (simp add: py_div_def)

lemma math_sqrt_nonneg [simp]: "0 \<le> x \<Longrightarrow> math_sqrt x = Inr (sqrt x)"
  by (simp add: math_sqrt_def)

lemma sspl_fault:
  "len = 0 \<or> width = 0 \<or> height = 0 \<or> youngs_modulus m = 0 \<or> load = 0 \<or> a = 0 \<or> a = len
   \<Longrightarrow> simply_supported_point_load m len load a width height = Inl ZeroDivisionError"
  unfolding simply_supported_point_load_def Let_def
  by (auto simp: py_div_def bind_result_def)

lemma sspl_value:
  assumes "len \<noteq> 0" "width \<noteq> 0" "height \<noteq> 0" "youngs_modulus m \<noteq> 0" "load \<noteq> 0" "a \<noteq> 0" "a \<noteq> len"
  shows "simply_supported_point_load m len load a width height =
     Inr \<lparr>max_deflection =
            (if \<bar>a - (len - a)\<bar> < 1 / 100
             then load * len ^ 3 / (48 * (youngs_modulus m * 10 ^ 9) * (width * height ^ 3 / 12))
             else load * a ^ 2 * (len - a) ^ 2 / (3 * (youngs_modulus m * 10 ^ 9) * (width * height ^ 3 / 12) * len)) * 1000,
          max_stress = load * a * (len - a) / len * (height / 2) / (width * height ^ 3 / 12) / 10 ^ 6,
          max_moment = load * a * (len - a) / len,
          max_shear = max (load * (len - a) / len) (load * a / len),
          safety_factor = yield_strength m / (load * a * (len - a) / len * (height / 2) / (width * height ^ 3 / 12) / 10 ^ 6),
          weight = len * width * height * density m,
          cost = len * width * height * density m * cost_per_kg m\<rparr>"
  using assms unfolding simply_supported_point_load_def Let_def
  by simp

lemma cantilever_fault:
  "len = 0 \<or> width = 0 \<or> height = 0 \<or> youngs_modulus m = 0 \<or> load = 0
   \<Longrightarrow> cantilever_beam m len load width height = Inl ZeroDivisionError"
  unfolding cantilever_beam_def Let_def
  by (auto simp: py_div_def bind_result_def)

lemma cantilever_value:
  assumes "len \<noteq> 0" "width \<noteq> 0" "height \<noteq> 0" "youngs_modulus m \<noteq> 0" "load \<noteq> 0"
  shows "cantilever_beam m len load width height =
     Inr \<lparr>max_deflection =
            load * len ^ 3 / (3 * (youngs_modulus m * 10 ^ 9) * (width * height ^ 3 / 12)) * 1000,
          max_stress = load * len * (height / 2) / (width * height ^ 3 / 12) / 10 ^ 6,
          max_moment = load * len,
          max_shear = load,
          safety_factor = yield_strength m / (load * len * (height / 2) / (width * height ^ 3 / 12) / 10 ^ 6),
          weight = len * width * height * density m,
          cost = len * width * height * density m * cost_per_kg m\<rparr>"
  using assms unfolding cantilever_beam_def Let_def
  by simp

lemma distributed_fault:
  "len = 0 \<or> width = 0 \<or> height = 0 \<or> youngs_modulus m = 0 \<or> w = 0
   \<Longrightarrow> distributed_load_beam m len w width height = Inl ZeroDivisionError"
  unfolding distributed_load_beam_def Let_def
  by (auto simp: py_div_def bind_result_def)

lemma distributed_value:
  assumes "len \<noteq> 0" "width \<noteq> 0" "height \<noteq> 0" "youngs_modulus m \<noteq> 0" "w \<noteq> 0"
  shows "distributed_load_beam m len w width height =
     Inr \<lparr>max_deflection =
            5 * w * len ^ 4 / (384 * (youngs_modulus m * 10 ^ 9) * (width * height ^ 3 / 12)) * 1000,
          max_stress = w * len ^ 2 / 8 * (height / 2) / (width * height ^ 3 / 12) / 10 ^ 6,
          max_moment = w * len ^ 2 / 8,
          max_shear = w * len / 2,
          safety_factor = yield_strength m / (w * len ^ 2 / 8 * (height / 2) / (width * height ^ 3 / 12) / 10 ^ 6),
          weight = len * width * height * density m,
          cost = len * width * height * density m * cost_per_kg m\<rparr>"
  using assms unfolding distributed_load_beam_def Let_def
  by simp

lemma K_recognized:
  "dict_get K_factors ''pinned-pinned'' d = 1"
  "dict_get K_factors ''fixed-free'' d = 2"
  "dict_get K_factors ''fixed-fixed'' d = 1 / 2"
  "dict_get K_factors ''fixed-pinned'' d = 7 / 10"
  by (simp_all add: dict_get_def K_factors_def)

lemma K_unrecognized:
  "ec \<notin> {''pinned-pinned'', ''fixed-free'', ''fixed-fixed'', ''fixed-pinned''}
   \<Longrightarrow> dict_get K_factors ec d = d"
  by (simp add: dict_get_def K_factors_def)

lemma euler_value:
  assumes "0 < len" "0 < width" "0 < height" "dict_get K_factors ec 1 = K" "0 < K"
  shows "euler_buckling_load m len width height ec =
     Inr \<lparr>critical_load_n =
            pi ^ 2 * (youngs_modulus m * 10 ^ 9) * min (width * height ^ 3 / 12) (height * width ^ 3 / 12)
              / (K * len) ^ 2,
          critical_load_kn =
            pi ^ 2 * (youngs_modulus m * 10 ^ 9) * min (width * height ^ 3 / 12) (height * width ^ 3 / 12)
              / (K * len) ^ 2 / 1000,
          slenderness_ratio =
            K * len / sqrt (min (width * height ^ 3 / 12) (height * width ^ 3 / 12) / (width * height)),
          end_condition = ec,
          is_long_column =
            (K * len / sqrt (min (width * height ^ 3 / 12) (height * width ^ 3 / 12) / (width * height)) > 120)\<rparr>"
proof -
  let ?I = "min (width * height ^ 3 / 12) (height * width ^ 3 / 12)"
  have I: "0 < ?I" using assms by simp
  have A: "0 < width * height" using assms by simp
  have q: "0 < ?I / (width * height)" using I A by (rule divide_pos_pos)
  have "0 < sqrt (?I / (width * height))" using q by (simp only: real_sqrt_gt_0_iff)
  then have r: "sqrt (?I / (width * height)) \<noteq> 0" by (rule less_imp_neq [symmetric])
  have L: "(K * len) ^ 2 \<noteq> 0" using assms by simp
  have A': "width * height \<noteq> 0" using assms by simp
  have q': "0 \<le> ?I / (width * height)" using q by (rule less_imp_le)
  show ?thesis
    unfolding euler_buckling_load_def Let_def
    using assms(4) L A' q' r by simp
qed

lemma euler_unrecognized:
  assumes "ec \<notin> {''pinned-pinned'', ''fixed-free'', ''fixed-fixed'', ''fixed-pinned''}"
  shows "euler_buckling_load m len width height ec =
     (case euler_buckling_load m len width height ''pinned-pinned'' of
        Inl e \<Rightarrow> Inl e | Inr r \<Rightarrow> Inr (r\<lparr>end_condition := ec\<rparr>))"
  unfolding euler_buckling_load_def Let_def K_unrecognized [OF assms] K_recognized
  by (simp add: bind_result_def py_div_def math_sqrt_def split: sum.splits)

section \<open>The beam formulas\<close>

text \<open>
  Claim C1. With a positive span, width and height, every result that
  \<open>simply_supported_point_load\<close> returns for a load \<open>P\<close> at distance \<open>a\<close> from the left
  support (\<open>b = len - a\<close>) has \<open>max_moment = P a b / len\<close>; \<open>max_deflection\<close> in
  millimetres, which is 1000 times \<open>P len\<^sup>3 / (48 E I)\<close> when \<open>\<bar>a - b\<bar> < 0.01\<close> and 1000 times
  \<open>P a\<^sup>2 b\<^sup>2 / (3 E I len)\<close> otherwise, where \<open>E = youngs_modulus 10\<^sup>9\<close> and
  \<open>I = width height\<^sup>3 / 12\<close>; \<open>max_shear = max (P b / len) (P a / len)\<close>;
  \<open>max_stress = max_moment (height / 2) / I / 10\<^sup>6\<close>; and
  \<open>safety_factor = yield_strength / max_stress\<close>. The call returns a result exactly when
  no divisor is zero: the modulus, the load and both distances \<open>a\<close> and \<open>b\<close> are non-zero.
\<close>

theorem simply_supported_point_load_formulas:
  assumes "0 < len" "0 < width" "0 < height"
  shows "(\<forall>r. simply_supported_point_load m len load a width height = Inr r \<longrightarrow>
            max_moment r = load * a * (len - a) / len \<and>
            max_deflection r =
              (if \<bar>a - (len - a)\<bar> < 1 / 100
               then load * len ^ 3 / (48 * (youngs_modulus m * 10 ^ 9) * (width * height ^ 3 / 12))
               else load * a ^ 2 * (len - a) ^ 2
                      / (3 * (youngs_modulus m * 10 ^ 9) * (width * height ^ 3 / 12) * len)) * 1000 \<and>
            max_shear r = max (load * (len - a) / len) (load * a / len) \<and>
            max_stress r = max_moment r * (height / 2) / (width * height ^ 3 / 12) / 10 ^ 6 \<and>
            safety_factor r = yield_strength m / max_stress r)
       \<and> ((\<exists>r. simply_supported_point_load m len load a width height = Inr r)
            \<longleftrightarrow> youngs_modulus m \<noteq> 0 \<and> load \<noteq> 0 \<and> a \<noteq> 0 \<and> a \<noteq> len)"
proof (cases "youngs_modulus m \<noteq> 0 \<and> load \<noteq> 0 \<and> a \<noteq> 0 \<and> a \<noteq> len")
  case True
  with assms have "len \<noteq> 0" "width \<noteq> 0" "height \<noteq> 0" "youngs_modulus m \<noteq> 0"
    "load \<noteq> 0" "a \<noteq> 0" "a \<noteq> len"
    by simp_all
  note eq = sspl_value [OF this]
  from True show ?thesis
    unfolding eq by (simp only: sum.inject BeamAnalysisResult.simps simp_thms)
next
  case False
  then have "simply_supported_point_load m len load a width height = Inl ZeroDivisionError"
    by (intro sspl_fault) blast
  with False show ?thesis
    by simp
qed

theorem simply_supported_point_load_formulas_witness:
  "(0::real) < 2 \<and> (0::real) < 1 / 20 \<and> (0::real) < 1 / 10 \<and>
   simply_supported_point_load steel_a36 2 1000 (1 / 2) (1 / 20) (1 / 10) =
     Inr \<lparr>max_deflection = 9 / 80, max_stress = 9 / 2, max_moment = 375, max_shear = 750,
          safety_factor = 500 / 9, weight = 157 / 2, cost = 471 / 4\<rparr> \<and>
   max_moment (projr (simply_supported_point_load steel_a36 2 1000 (1 / 2) (1 / 20) (1 / 10)))
     = 1000 * (1 / 2) * (2 - 1 / 2) / 2"
  using simply_supported_point_load_formulas [of 2 "1 / 20" "1 / 10" steel_a36 1000 "1 / 2"]
  by (simp add: sspl_value steel_a36_def power3_eq_cube power2_eq_square)

text \<open>
  Claim C4. With a positive length, width and height, every result that
  \<open>cantilever_beam\<close> returns for a load \<open>P\<close> at the free end has \<open>max_moment = P len\<close>,
  \<open>max_deflection\<close> in millimetres, 1000 times \<open>P len\<^sup>3 / (3 E I)\<close> with
  \<open>E = youngs_modulus 10\<^sup>9\<close> and \<open>I = width height\<^sup>3 / 12\<close>, \<open>max_shear = P\<close>,
  \<open>max_stress = max_moment (height / 2) / I / 10\<^sup>6\<close> and
  \<open>safety_factor = yield_strength / max_stress\<close>. The call returns a result exactly when
  the modulus and the load are non-zero.
\<close>

theorem cantilever_beam_formulas:
  assumes "0 < len" "0 < width" "0 < height"
  shows "(\<forall>r. cantilever_beam m len load width height = Inr r \<longrightarrow>
            max_moment r = load * len \<and>
            max_deflection r =
              load * len ^ 3 / (3 * (youngs_modulus m * 10 ^ 9) * (width * height ^ 3 / 12)) * 1000 \<and>
            max_shear r = load \<and>
            max_stress r = max_moment r * (height / 2) / (width * height ^ 3 / 12) / 10 ^ 6 \<and>
            safety_factor r = yield_strength m / max_stress r)
       \<and> ((\<exists>r. cantilever_beam m len load width height = Inr r)
            \<longleftrightarrow> youngs_modulus m \<noteq> 0 \<and> load \<noteq> 0)"
proof (cases "youngs_modulus m \<noteq> 0 \<and> load \<noteq> 0")
  case True
  with assms have "len \<noteq> 0" "width \<noteq> 0" "height \<noteq> 0" "youngs_modulus m \<noteq> 0" "load \<noteq> 0"
    by simp_all
  note eq = cantilever_value [OF this]
  from True show ?thesis
    unfolding eq by (simp only: sum.inject BeamAnalysisResult.simps simp_thms)
next
  case False
  then have "cantilever_beam m len load width height = Inl ZeroDivisionError"
    by (intro cantilever_fault) blast
  with False show ?thesis
    by simp
qed

theorem cantilever_beam_formulas_witness:
  "(0::real) < 2 \<and> (0::real) < 1 / 20 \<and> (0::real) < 1 / 10 \<and>
   cantilever_beam steel_a36 2 1000 (1 / 20) (1 / 10) =
     Inr \<lparr>max_deflection = 16 / 5, max_stress = 24, max_moment = 2000, max_shear = 1000,
          safety_factor = 125 / 12, weight = 157 / 2, cost = 471 / 4\<rparr> \<and>
   max_moment (projr (cantilever_beam steel_a36 2 1000 (1 / 20) (1 / 10))) = 1000 * 2"
  using cantilever_beam_formulas [of 2 "1 / 20" "1 / 10" steel_a36 1000]
  by (simp add: cantilever_value steel_a36_def power3_eq_cube)

text \<open>
  Claim C3. With a positive span, width and height, every result that
  \<open>distributed_load_beam\<close> returns for a load \<open>w\<close> per length has
  \<open>max_moment = w len\<^sup>2 / 8\<close>, \<open>max_deflection\<close> in millimetres, 1000 times
  \<open>5 w len\<^sup>4 / (384 E I)\<close> with \<open>E = youngs_modulus 10\<^sup>9\<close> and
  \<open>I = width height\<^sup>3 / 12\<close>, \<open>max_shear = w len / 2\<close>,
  \<open>max_stress = max_moment (height / 2) / I / 10\<^sup>6\<close> and
  \<open>safety_factor = yield_strength / max_stress\<close>. The call returns a result exactly when
  the modulus and the load are non-zero.
\<close>

theorem distributed_load_beam_formulas:
  assumes "0 < len" "0 < width" "0 < height"
  shows "(\<forall>r. distributed_load_beam m len w width height = Inr r \<longrightarrow>
            max_moment r = w * len ^ 2 / 8 \<and>
            max_deflection r =
              5 * w * len ^ 4 / (384 * (youngs_modulus m * 10 ^ 9) * (width * height ^ 3 / 12)) * 1000 \<and>
            max_shear r = w * len / 2 \<and>
            max_stress r = max_moment r * (height / 2) / (width * height ^ 3 / 12) / 10 ^ 6 \<and>
            safety_factor r = yield_strength m / max_stress r)
       \<and> ((\<exists>r. distributed_load_beam m len w width height = Inr r)
            \<longleftrightarrow> youngs_modulus m \<noteq> 0 \<and> w \<noteq> 0)"
proof (cases "youngs_modulus m \<noteq> 0 \<and> w \<noteq> 0")
  case True
  with assms have "len \<noteq> 0" "width \<noteq> 0" "height \<noteq> 0" "youngs_modulus m \<noteq> 0" "w \<noteq> 0"
    by simp_all
  note eq = distributed_value [OF this]
  from True show ?thesis
    unfolding eq by (simp only: sum.inject BeamAnalysisResult.simps simp_thms)
next
  case False
  then have "distributed_load_beam m len w width height = Inl ZeroDivisionError"
    by (intro distributed_fault) blast
  with False show ?thesis
    by simp
qed

theorem distributed_load_beam_formulas_witness:
  "(0::real) < 2 \<and> (0::real) < 1 / 20 \<and> (0::real) < 1 / 10 \<and>
   distributed_load_beam steel_a36 2 1000 (1 / 20) (1 / 10) =
     Inr \<lparr>max_deflection = 1 / 4, max_stress = 6, max_moment = 500, max_shear = 1000,
          safety_factor = 125 / 3, weight = 157 / 2, cost = 471 / 4\<rparr> \<and>
   max_moment (projr (distributed_load_beam steel_a36 2 1000 (1 / 20) (1 / 10))) = 1000 * 2 ^ 2 / 8"
  using distributed_load_beam_formulas [of 2 "1 / 20" "1 / 10" steel_a36 1000]
  by (simp add: distributed_value steel_a36_def power3_eq_cube power4_eq_xxxx)

section \<open>Weight and cost\<close>

text \<open>
  Claim C5. Whatever the inputs, a result returned by any of the three beam operations
  has \<open>weight = len width height density\<close> and \<open>cost = weight cost_per_kg\<close>, as equalities:
  the engine rounds nowhere. The products are written in the order in which Python
  evaluates them, \<open>((len width) height) density\<close>. Such a result is returned whenever
  no divisor of the operation is zero.
\<close>

theorem beam_weight_cost_identity:
  "(\<forall>r. simply_supported_point_load m len load a width height = Inr r \<longrightarrow>
      weight r = len * width * height * density m \<and> cost r = weight r * cost_per_kg m) \<and>
   (len \<noteq> 0 \<and> width \<noteq> 0 \<and> height \<noteq> 0 \<and> youngs_modulus m \<noteq> 0 \<and>
    load \<noteq> 0 \<and> a \<noteq> 0 \<and> a \<noteq> len \<longrightarrow>
      (\<exists>r. simply_supported_point_load m len load a width height = Inr r \<and>
         weight r = len * width * height * density m \<and> cost r = weight r * cost_per_kg m)) \<and>
   (\<forall>r. cantilever_beam m len load width height = Inr r \<longrightarrow>
      weight r = len * width * height * density m \<and> cost r = weight r * cost_per_kg m) \<and>
   (len \<noteq> 0 \<and> width \<noteq> 0 \<and> height \<noteq> 0 \<and> youngs_modulus m \<noteq> 0 \<and> load \<noteq> 0 \<longrightarrow>
      (\<exists>r. cantilever_beam m len load width height = Inr r \<and>
         weight r = len * width * height * density m \<and> cost r = weight r * cost_per_kg m)) \<and>
   (\<forall>r. distributed_load_beam m len load width height = Inr r \<longrightarrow>
      weight r = len * width * height * density m \<and> cost r = weight r * cost_per_kg m) \<and>
   (len \<noteq> 0 \<and> width \<noteq> 0 \<and> height \<noteq> 0 \<and> youngs_modulus m \<noteq> 0 \<and> load \<noteq> 0 \<longrightarrow>
      (\<exists>r. distributed_load_beam m len load width height = Inr r \<and>
         weight r = len * width * height * density m \<and> cost r = weight r * cost_per_kg m))"
proof (intro conjI allI impI)
  fix r
  assume r: "simply_supported_point_load m len load a width height = Inr r"
  then have "len \<noteq> 0" "width \<noteq> 0" "height \<noteq> 0" "youngs_modulus m \<noteq> 0"
    "load \<noteq> 0" "a \<noteq> 0" "a \<noteq> len"
    using sspl_fault [of len width height m load a] by auto
  from r [unfolded sspl_value [OF this]]
  show "weight r = len * width * height * density m" "cost r = weight r * cost_per_kg m"
    by auto
next
  assume "len \<noteq> 0 \<and> width \<noteq> 0 \<and> height \<noteq> 0 \<and> youngs_modulus m \<noteq> 0 \<and>
    load \<noteq> 0 \<and> a \<noteq> 0 \<and> a \<noteq> len"
  then have "len \<noteq> 0" "width \<noteq> 0" "height \<noteq> 0" "youngs_modulus m \<noteq> 0"
    "load \<noteq> 0" "a \<noteq> 0" "a \<noteq> len"
    by simp_all
  note eq = sspl_value [OF this]
  show "\<exists>r. simply_supported_point_load m len load a width height = Inr r \<and>
      weight r = len * width * height * density m \<and> cost r = weight r * cost_per_kg m"
    unfolding eq by (simp only: sum.inject BeamAnalysisResult.simps simp_thms ex_simps)
next
  fix r
  assume r: "cantilever_beam m len load width height = Inr r"
  then have "len \<noteq> 0" "width \<noteq> 0" "height \<noteq> 0" "youngs_modulus m \<noteq> 0" "load \<noteq> 0"
    using cantilever_fault [of len width height m load] by auto
  from r [unfolded cantilever_value [OF this]]
  show "weight r = len * width * height * density m" "cost r = weight r * cost_per_kg m"
    by auto
next
  assume "len \<noteq> 0 \<and> width \<noteq> 0 \<and> height \<noteq> 0 \<and> youngs_modulus m \<noteq> 0 \<and> load \<noteq> 0"
  then have "len \<noteq> 0" "width \<noteq> 0" "height \<noteq> 0" "youngs_modulus m \<noteq> 0" "load \<noteq> 0"
    by simp_all
  note eq = cantilever_value [OF this]
  show "\<exists>r. cantilever_beam m len load width height = Inr r \<and>
      weight r = len * width * height * density m \<and> cost r = weight r * cost_per_kg m"
    unfolding eq by (simp only: sum.inject BeamAnalysisResult.simps simp_thms ex_simps)
next
  fix r
  assume r: "distributed_load_beam m len load width height = Inr r"
  then have "len \<noteq> 0" "width \<noteq> 0" "height \<noteq> 0" "youngs_modulus m \<noteq> 0" "load \<noteq> 0"
    using distributed_fault [of len width height m load] by auto
  from r [unfolded distributed_value [OF this]]
  show "weight r = len * width * height * density m" "cost r = weight r * cost_per_kg m"
    by auto
next
  assume "len \<noteq> 0 \<and> width \<noteq> 0 \<and> height \<noteq> 0 \<and> youngs_modulus m \<noteq> 0 \<and> load \<noteq> 0"
  then have "len \<noteq> 0" "width \<noteq> 0" "height \<noteq> 0" "youngs_modulus m \<noteq> 0" "load \<noteq> 0"
    by simp_all
  note eq = distributed_value [OF this]
  show "\<exists>r. distributed_load_beam m len load width height = Inr r \<and>
      weight r = len * width * height * density m \<and> cost r = weight r * cost_per_kg m"
    unfolding eq by (simp only: sum.inject BeamAnalysisResult.simps simp_thms ex_simps)
qed

theorem beam_weight_cost_identity_witness:
  "(3 :: real) \<noteq> 0 \<and> (1 / 10 :: real) \<noteq> 0 \<and> (1 / 5 :: real) \<noteq> 0 \<and>
   youngs_modulus aluminum_6061 \<noteq> 0 \<and> (500 :: real) \<noteq> 0 \<and> (1 :: real) \<noteq> 0 \<and>
   (1 :: real) \<noteq> 3 \<and>
   simply_supported_point_load aluminum_6061 3 500 1 (1 / 10) (1 / 5) =
     Inr \<lparr>max_deflection = 10 / 207, max_stress = 1 / 2, max_moment = 1000 / 3,
          max_shear = 1000 / 3, safety_factor = 552, weight = 162, cost = 567\<rparr> \<and>
   weight (projr (simply_supported_point_load aluminum_6061 3 500 1 (1 / 10) (1 / 5)))
     = 3 * (1 / 10) * (1 / 5) * 2700 \<and>
   cost (projr (simply_supported_point_load aluminum_6061 3 500 1 (1 / 10) (1 / 5)))
     = 162 * (7 / 2) \<and>
   cantilever_beam aluminum_6061 3 500 (1 / 10) (1 / 5) =
     Inr \<lparr>max_deflection = 45 / 46, max_stress = 9 / 4, max_moment = 1500,
          max_shear = 500, safety_factor = 368 / 3, weight = 162, cost = 567\<rparr> \<and>
   weight (projr (cantilever_beam aluminum_6061 3 500 (1 / 10) (1 / 5)))
     = 3 * (1 / 10) * (1 / 5) * 2700 \<and>
   distributed_load_beam aluminum_6061 3 500 (1 / 10) (1 / 5) =
     Inr \<lparr>max_deflection = 675 / 5888, max_stress = 27 / 32, max_moment = 1125 / 2,
          max_shear = 750, safety_factor = 2944 / 9, weight = 162, cost = 567\<rparr> \<and>
   weight (projr (distributed_load_beam aluminum_6061 3 500 (1 / 10) (1 / 5)))
     = 3 * (1 / 10) * (1 / 5) * 2700"
  using beam_weight_cost_identity [of aluminum_6061 3 500 1 "1 / 10" "1 / 5"]
  by (simp add: sspl_value cantilever_value distributed_value aluminum_6061_def
      power2_eq_square power3_eq_cube power4_eq_xxxx)

section \<open>Safety threshold\<close>

text \<open>
  Claim C9. \<open>is_safe\<close> holds exactly when the safety factor is at least the threshold,
  and the threshold is 1.5 when the caller gives none. The engine rejects no design for
  being unsafe: in each beam operation, when no divisor is zero, so that the safety factor
  is computed, and the safety factor is below 1.5, the call returns its result record
  with that safety factor, and \<open>is_safe\<close> is false of it.
\<close>

theorem is_safe_threshold_and_unsafe_designs:
  "(is_safe r (Some t) \<longleftrightarrow> safety_factor r \<ge> t) \<and>
   (is_safe r None \<longleftrightarrow> safety_factor r \<ge> 3 / 2) \<and>
   (len \<noteq> 0 \<and> width \<noteq> 0 \<and> height \<noteq> 0 \<and> youngs_modulus m \<noteq> 0 \<and>
    load \<noteq> 0 \<and> a \<noteq> 0 \<and> a \<noteq> len \<and>
    yield_strength m
      / (load * a * (len - a) / len * (height / 2) / (width * height ^ 3 / 12) / 10 ^ 6) < 3 / 2
    \<longrightarrow> (\<exists>r'. simply_supported_point_load m len load a width height = Inr r' \<and>
           safety_factor r' = yield_strength m
             / (load * a * (len - a) / len * (height / 2) / (width * height ^ 3 / 12) / 10 ^ 6) \<and>
           \<not> is_safe r' None)) \<and>
   (len \<noteq> 0 \<and> width \<noteq> 0 \<and> height \<noteq> 0 \<and> youngs_modulus m \<noteq> 0 \<and> load \<noteq> 0 \<and>
    yield_strength m
      / (load * len * (height / 2) / (width * height ^ 3 / 12) / 10 ^ 6) < 3 / 2
    \<longrightarrow> (\<exists>r'. cantilever_beam m len load width height = Inr r' \<and>
           safety_factor r' = yield_strength m
             / (load * len * (height / 2) / (width * height ^ 3 / 12) / 10 ^ 6) \<and>
           \<not> is_safe r' None)) \<and>
   (len \<noteq> 0 \<and> width \<noteq> 0 \<and> height \<noteq> 0 \<and> youngs_modulus m \<noteq> 0 \<and> load \<noteq> 0 \<and>
    yield_strength m
      / (load * len ^ 2 / 8 * (height / 2) / (width * height ^ 3 / 12) / 10 ^ 6) < 3 / 2
    \<longrightarrow> (\<exists>r'. distributed_load_beam m len load width height = Inr r' \<and>
           safety_factor r' = yield_strength m
             / (load * len ^ 2 / 8 * (height / 2) / (width * height ^ 3 / 12) / 10 ^ 6) \<and>
           \<not> is_safe r' None))"
proof (intro conjI impI)
  show "is_safe r (Some t) \<longleftrightarrow> safety_factor r \<ge> t"
    by (simp add: is_safe_def)
  show "is_safe r None \<longleftrightarrow> safety_factor r \<ge> 3 / 2"
    by (simp add: is_safe_def)
next
  assume h: "len \<noteq> 0 \<and> width \<noteq> 0 \<and> height \<noteq> 0 \<and> youngs_modulus m \<noteq> 0 \<and>
    load \<noteq> 0 \<and> a \<noteq> 0 \<and> a \<noteq> len \<and>
    yield_strength m
      / (load * a * (len - a) / len * (height / 2) / (width * height ^ 3 / 12) / 10 ^ 6) < 3 / 2"
  then have "len \<noteq> 0" "width \<noteq> 0" "height \<noteq> 0" "youngs_modulus m \<noteq> 0"
    "load \<noteq> 0" "a \<noteq> 0" "a \<noteq> len"
    by simp_all
  note eq = sspl_value [OF this]
  from h show "\<exists>r'. simply_supported_point_load m len load a width height = Inr r' \<and>
           safety_factor r' = yield_strength m
             / (load * a * (len - a) / len * (height / 2) / (width * height ^ 3 / 12) / 10 ^ 6) \<and>
           \<not> is_safe r' None"
    unfolding eq is_safe_def by (simp only: sum.inject BeamAnalysisResult.simps simp_thms
      ex_simps option.case Let_def not_le)
next
  assume h: "len \<noteq> 0 \<and> width \<noteq> 0 \<and> height \<noteq> 0 \<and> youngs_modulus m \<noteq> 0 \<and> load \<noteq> 0 \<and>
    yield_strength m
      / (load * len * (height / 2) / (width * height ^ 3 / 12) / 10 ^ 6) < 3 / 2"
  then have "len \<noteq> 0" "width \<noteq> 0" "height \<noteq> 0" "youngs_modulus m \<noteq> 0" "load \<noteq> 0"
    by simp_all
  note eq = cantilever_value [OF this]
  from h show "\<exists>r'. cantilever_beam m len load width height = Inr r' \<and>
           safety_factor r' = yield_strength m
             / (load * len * (height / 2) / (width * height ^ 3 / 12) / 10 ^ 6) \<and>
           \<not> is_safe r' None"
    unfolding eq is_safe_def by (simp only: sum.inject BeamAnalysisResult.simps simp_thms
      ex_simps option.case Let_def not_le)
next
  assume h: "len \<noteq> 0 \<and> width \<noteq> 0 \<and> height \<noteq> 0 \<and> youngs_modulus m \<noteq> 0 \<and> load \<noteq> 0 \<and>
    yield_strength m
      / (load * len ^ 2 / 8 * (height / 2) / (width * height ^ 3 / 12) / 10 ^ 6) < 3 / 2"
  then have "len \<noteq> 0" "width \<noteq> 0" "height \<noteq> 0" "youngs_modulus m \<noteq> 0" "load \<noteq> 0"
    by simp_all
  note eq = distributed_value [OF this]
  from h show "\<exists>r'. distributed_load_beam m len load width height = Inr r' \<and>
           safety_factor r' = yield_strength m
             / (load * len ^ 2 / 8 * (height / 2) / (width * height ^ 3 / 12) / 10 ^ 6) \<and>
           \<not> is_safe r' None"
    unfolding eq is_safe_def by (simp only: sum.inject BeamAnalysisResult.simps simp_thms
      ex_simps option.case Let_def not_le)
qed

theorem is_safe_threshold_and_unsafe_designs_witness:
  "simply_supported_point_load steel_a36 2 100000 1 (1 / 20) (1 / 10) =
     Inr \<lparr>max_deflection = 20, max_stress = 600, max_moment = 50000, max_shear = 50000,
          safety_factor = 5 / 12, weight = 157 / 2, cost = 471 / 4\<rparr> \<and>
   \<not> is_safe (projr (simply_supported_point_load steel_a36 2 100000 1 (1 / 20) (1 / 10))) None \<and>
   cantilever_beam steel_a36 2 100000 (1 / 20) (1 / 10) =
     Inr \<lparr>max_deflection = 320, max_stress = 2400, max_moment = 200000, max_shear = 100000,
          safety_factor = 5 / 48, weight = 157 / 2, cost = 471 / 4\<rparr> \<and>
   \<not> is_safe (projr (cantilever_beam steel_a36 2 100000 (1 / 20) (1 / 10))) None \<and>
   distributed_load_beam steel_a36 2 100000 (1 / 20) (1 / 10) =
     Inr \<lparr>max_deflection = 25, max_stress = 600, max_moment = 50000, max_shear = 100000,
          safety_factor = 5 / 12, weight = 157 / 2, cost = 471 / 4\<rparr> \<and>
   \<not> is_safe (projr (distributed_load_beam steel_a36 2 100000 (1 / 20) (1 / 10))) None"
  using is_safe_threshold_and_unsafe_designs
    [where len = 2 and width = "1 / 20" and height = "1 / 10" and m = steel_a36
       and load = 100000 and a = 1]
  by (simp add: sspl_value cantilever_value distributed_value steel_a36_def is_safe_def
      power2_eq_square power3_eq_cube power4_eq_xxxx)

section \<open>Zero bending moment\<close>

text \<open>
  Claim C10. With a positive span, width and height, a beam operation whose maximum moment
  is zero returns no result: the stress is zero and the division of the yield strength by
  it raises \<open>ZeroDivisionError\<close>. That is the case for a zero load in each of the three
  operations, and in \<open>simply_supported_point_load\<close> for a load at either support
  (\<open>load_position = 0\<close> or \<open>load_position = len\<close>), whichever deflection formula is
  taken. The geometry is not degenerate in any of these calls.
\<close>

theorem zero_moment_raises:
  assumes "0 < len" "0 < width" "0 < height"
  shows "(load = 0 \<or> a = 0 \<or> a = len \<longrightarrow>
            load * a * (len - a) / len = 0 \<and>
            py_div (load * a * (len - a) / len * (height / 2)) (width * height ^ 3 / 12) = Inr 0 \<and>
            load * a * (len - a) / len * (height / 2) / (width * height ^ 3 / 12) / 10 ^ 6 = 0 \<and>
            py_div (yield_strength m)
              (load * a * (len - a) / len * (height / 2) / (width * height ^ 3 / 12) / 10 ^ 6)
              = Inl ZeroDivisionError \<and>
            simply_supported_point_load m len load a width height = Inl ZeroDivisionError) \<and>
         (load = 0 \<longrightarrow>
            load * len = 0 \<and>
            py_div (load * len * (height / 2)) (width * height ^ 3 / 12) = Inr 0 \<and>
            load * len * (height / 2) / (width * height ^ 3 / 12) / 10 ^ 6 = 0 \<and>
            py_div (yield_strength m)
              (load * len * (height / 2) / (width * height ^ 3 / 12) / 10 ^ 6)
              = Inl ZeroDivisionError \<and>
            cantilever_beam m len load width height = Inl ZeroDivisionError) \<and>
         (load = 0 \<longrightarrow>
            load * len ^ 2 / 8 = 0 \<and>
            py_div (load * len ^ 2 / 8 * (height / 2)) (width * height ^ 3 / 12) = Inr 0 \<and>
            load * len ^ 2 / 8 * (height / 2) / (width * height ^ 3 / 12) / 10 ^ 6 = 0 \<and>
            py_div (yield_strength m)
              (load * len ^ 2 / 8 * (height / 2) / (width * height ^ 3 / 12) / 10 ^ 6)
              = Inl ZeroDivisionError \<and>
            distributed_load_beam m len load width height = Inl ZeroDivisionError)"
proof (intro conjI impI)
  assume h: "load = 0 \<or> a = 0 \<or> a = len"
  then show m0: "load * a * (len - a) / len = 0"
    by auto
  show "py_div (load * a * (len - a) / len * (height / 2)) (width * height ^ 3 / 12) = Inr 0"
    unfolding m0 using assms by simp
  show s0: "load * a * (len - a) / len * (height / 2) / (width * height ^ 3 / 12) / 10 ^ 6 = 0"
    unfolding m0 by simp
  show "py_div (yield_strength m)
      (load * a * (len - a) / len * (height / 2) / (width * height ^ 3 / 12) / 10 ^ 6)
      = Inl ZeroDivisionError"
    unfolding s0 by (rule py_div_zero)
  from h show "simply_supported_point_load m len load a width height = Inl ZeroDivisionError"
    by (intro sspl_fault) blast
next
  assume h: "load = 0"
  then show m0: "load * len = 0"
    by simp
  show "py_div (load * len * (height / 2)) (width * height ^ 3 / 12) = Inr 0"
    unfolding m0 using assms by simp
  show s0: "load * len * (height / 2) / (width * height ^ 3 / 12) / 10 ^ 6 = 0"
    unfolding m0 by simp
  show "py_div (yield_strength m)
      (load * len * (height / 2) / (width * height ^ 3 / 12) / 10 ^ 6) = Inl ZeroDivisionError"
    unfolding s0 by (rule py_div_zero)
  from h show "cantilever_beam m len load width height = Inl ZeroDivisionError"
    by (intro cantilever_fault) blast
next
  assume h: "load = 0"
  then show m0: "load * len ^ 2 / 8 = 0"
    by simp
  show "py_div (load * len ^ 2 / 8 * (height / 2)) (width * height ^ 3 / 12) = Inr 0"
    unfolding m0 using assms by simp
  show s0: "load * len ^ 2 / 8 * (height / 2) / (width * height ^ 3 / 12) / 10 ^ 6 = 0"
    unfolding m0 by simp
  show "py_div (yield_strength m)
      (load * len ^ 2 / 8 * (height / 2) / (width * height ^ 3 / 12) / 10 ^ 6)
      = Inl ZeroDivisionError"
    unfolding s0 by (rule py_div_zero)
  from h show "distributed_load_beam m len load width height = Inl ZeroDivisionError"
    by (intro distributed_fault) blast
qed

theorem zero_moment_raises_witness:
  "(0::real) < 2 \<and> (0::real) < 1 / 20 \<and> (0::real) < 1 / 10 \<and>
   simply_supported_point_load steel_a36 2 0 1 (1 / 20) (1 / 10) = Inl ZeroDivisionError \<and>
   simply_supported_point_load steel_a36 2 1000 0 (1 / 20) (1 / 10) = Inl ZeroDivisionError \<and>
   simply_supported_point_load steel_a36 2 1000 2 (1 / 20) (1 / 10) = Inl ZeroDivisionError \<and>
   cantilever_beam steel_a36 2 0 (1 / 20) (1 / 10) = Inl ZeroDivisionError \<and>
   distributed_load_beam steel_a36 2 0 (1 / 20) (1 / 10) = Inl ZeroDivisionError"
  using zero_moment_raises [of 2 "1 / 20" "1 / 10" 0 1 steel_a36]
    zero_moment_raises [of 2 "1 / 20" "1 / 10" 1000 0 steel_a36]
    zero_moment_raises [of 2 "1 / 20" "1 / 10" 1000 2 steel_a36]
  by simp

section \<open>The steel column of the specification\<close>

text \<open>
  Steel A36, 3 m long, 0.1 m by 0.1 m, pinned at both ends: \<open>I_min = 1 / 120000\<close>,
  the critical load is \<open>\<pi>\<^sup>2 5000000 / 27\<close> newtons and the slenderness ratio is
  \<open>3 sqrt 1200\<close>.
\<close>

lemma euler_steel_scenario_raw:
  "euler_buckling_load steel_a36 3 (1 / 10) (1 / 10) ''pinned-pinned'' =
     Inr \<lparr>critical_load_n = pi ^ 2 * 5000000 / 27,
          critical_load_kn = pi ^ 2 * 5000 / 27,
          slenderness_ratio = 3 * sqrt 1200,
          end_condition = ''pinned-pinned'',
          is_long_column = (3 * sqrt 1200 > 120)\<rparr>"
proof -
  have I: "min ((1 / 10) * (1 / 10) ^ 3 / 12) ((1 / 10) * (1 / 10) ^ 3 / 12) = (1 / 120000 :: real)"
    by (simp add: power_divide)
  have r: "(1 / 120000) / ((1 / 10) * (1 / 10)) = (1 / 1200 :: real)"
    by simp
  have s: "1 * 3 / sqrt (1 / 1200) = 3 * sqrt 1200"
    by (simp add: real_sqrt_divide)
  have p: "pi ^ 2 * (200 * 10 ^ 9) * (1 / 120000) / (1 * 3) ^ 2 = pi ^ 2 * 5000000 / 27"
    by simp
  have k: "pi ^ 2 * 5000000 / 27 / 1000 = pi ^ 2 * 5000 / 27"
    by simp
  have y: "youngs_modulus steel_a36 = 200"
    by (simp add: steel_a36_def)
  have h: "(0 :: real) < 3" "(0 :: real) < 1 / 10" "(0 :: real) < 1"
    by simp_all
  note ev = euler_value [of 3 "1 / 10" "1 / 10" "''pinned-pinned''" 1 steel_a36,
      OF h(1) h(2) h(2) K_recognized(1) h(3)]
  show ?thesis
    unfolding ev y I r s p k by (rule refl)
qed

section \<open>Column buckling\<close>

text \<open>
  Claim C2. With a positive length, width and height and one of the four recognised end
  conditions, \<open>euler_buckling_load\<close> returns a result whose \<open>critical_load_n\<close> is
  \<open>\<pi>\<^sup>2 E I_min / L_e\<^sup>2\<close>, with \<open>E = youngs_modulus 10\<^sup>9\<close>,
  \<open>I_min = min (width height\<^sup>3 / 12) (height width\<^sup>3 / 12)\<close> and \<open>L_e = K len\<close>, where
  \<open>K\<close> is 1 for pinned-pinned, 2 for fixed-free, 0.5 for fixed-fixed and 0.7 for
  fixed-pinned; whose \<open>slenderness_ratio\<close> is \<open>L_e / sqrt (I_min / (width height))\<close>; and
  whose \<open>is_long_column\<close> is true exactly when the slenderness ratio exceeds 120.
\<close>

theorem euler_buckling_load_formulas:
  assumes "0 < len" "0 < width" "0 < height"
    and "(ec, K) \<in> {(''pinned-pinned'', 1), (''fixed-free'', 2),
           (''fixed-fixed'', 1 / 2), (''fixed-pinned'', 7 / 10)}"
  shows "\<exists>r. euler_buckling_load m len width height ec = Inr r \<and>
           critical_load_n r =
             pi ^ 2 * (youngs_modulus m * 10 ^ 9)
               * min (width * height ^ 3 / 12) (height * width ^ 3 / 12) / (K * len) ^ 2 \<and>
           critical_load_kn r = critical_load_n r / 1000 \<and>
           slenderness_ratio r =
             K * len / sqrt (min (width * height ^ 3 / 12) (height * width ^ 3 / 12)
                              / (width * height)) \<and>
           (is_long_column r \<longleftrightarrow> slenderness_ratio r > 120)"
proof -
  from assms(4) have K: "dict_get K_factors ec 1 = K" and pos: "0 < K"
    by (auto simp: K_recognized)
  note eq = euler_value [OF assms(1-3) K pos]
  show ?thesis
    unfolding eq by (simp only: sum.inject ColumnBucklingResult.simps simp_thms ex_simps)
qed

theorem euler_buckling_load_formulas_witness:
  "(0 :: real) < 4 \<and> (0 :: real) < 1 / 5 \<and> (0 :: real) < 1 / 10 \<and>
   (''fixed-free'', 2 :: real) \<in> {(''pinned-pinned'', 1), (''fixed-free'', 2),
           (''fixed-fixed'', 1 / 2), (''fixed-pinned'', 7 / 10)} \<and>
   critical_load_n (projr (euler_buckling_load aluminum_6061 4 (1 / 5) (1 / 10) ''fixed-free''))
     = pi ^ 2 * (69 * 10 ^ 9) * min (1 / 5 * (1 / 10) ^ 3 / 12) (1 / 10 * (1 / 5) ^ 3 / 12)
         / (2 * 4) ^ 2"
  using euler_buckling_load_formulas [of 4 "1 / 5" "1 / 10" "''fixed-free''" 2 aluminum_6061]
  by (auto simp: aluminum_6061_def)

text \<open>
  Claim C8. For an end condition that is none of the four recognised tags,
  \<open>euler_buckling_load\<close> does exactly what it does for \<open>pinned-pinned\<close> (\<open>K = 1\<close>),
  except that the \<open>end_condition\<close> field of the result is the tag it was given. The
  unknown tag raises nothing: with a positive length, width and height the call returns
  a result.
\<close>

theorem unrecognized_end_condition_defaults:
  assumes "ec \<notin> {''pinned-pinned'', ''fixed-free'', ''fixed-fixed'', ''fixed-pinned''}"
  shows "euler_buckling_load m len width height ec =
           (case euler_buckling_load m len width height ''pinned-pinned'' of
              Inl e \<Rightarrow> Inl e | Inr r \<Rightarrow> Inr (r\<lparr>end_condition := ec\<rparr>)) \<and>
         (\<forall>r. euler_buckling_load m len width height ec = Inr r \<longrightarrow> end_condition r = ec) \<and>
         (0 < len \<and> 0 < width \<and> 0 < height \<longrightarrow>
            (\<exists>r. euler_buckling_load m len width height ec = Inr r))"
proof (intro conjI allI impI)
  show eq: "euler_buckling_load m len width height ec =
      (case euler_buckling_load m len width height ''pinned-pinned'' of
         Inl e \<Rightarrow> Inl e | Inr r \<Rightarrow> Inr (r\<lparr>end_condition := ec\<rparr>))"
    using assms by (rule euler_unrecognized)
  fix r
  assume "euler_buckling_load m len width height ec = Inr r"
  with eq show "end_condition r = ec"
    by (auto split: sum.splits)
next
  assume "0 < len \<and> 0 < width \<and> 0 < height"
  then have "0 < len" "0 < width" "0 < height"
    by simp_all
  from euler_value [OF this K_unrecognized [OF assms] zero_less_one]
  show "\<exists>r. euler_buckling_load m len width height ec = Inr r"
    by (rule exI)
qed

theorem unrecognized_end_condition_defaults_witness:
  "''welded'' \<notin> {''pinned-pinned'', ''fixed-free'', ''fixed-fixed'', ''fixed-pinned''} \<and>
   (0 :: real) < 3 \<and> (0 :: real) < 1 / 10 \<and>
   euler_buckling_load steel_a36 3 (1 / 10) (1 / 10) ''welded'' =
     Inr \<lparr>critical_load_n = pi ^ 2 * 5000000 / 27,
          critical_load_kn = pi ^ 2 * 5000 / 27,
          slenderness_ratio = 3 * sqrt 1200,
          end_condition = ''welded'',
          is_long_column = (3 * sqrt 1200 > 120)\<rparr> \<and>
   end_condition (projr (euler_buckling_load steel_a36 3 (1 / 10) (1 / 10) ''welded'')) = ''welded''"
  using unrecognized_end_condition_defaults [of "''welded''" steel_a36 3 "1 / 10" "1 / 10"]
  by (simp add: euler_steel_scenario_raw)

section \<open>Bounds on \<open>\<pi>\<close>\<close>












section \<open>The worked scenarios of the specification\<close>

text \<open>
  A figure given as \<open>\<approx> v\<close> to one decimal is read as: within 0.05 of \<open>v\<close>; in
  general, within half a unit of the last digit given.
\<close>

lemma sspl_steel_scenario_raw:
  "simply_supported_point_load steel_a36 2 1000 1 (1 / 20) (1 / 10) =
     Inr \<lparr>max_deflection = 1 / 5, max_stress = 6, max_moment = 500, max_shear = 500,
          safety_factor = 125 / 3, weight = 157 / 2, cost = 471 / 4\<rparr>"
  by (simp add: sspl_value steel_a36_def power2_eq_square power3_eq_cube)

text \<open>
  Claim C6, as stated, fails: the maximum deflection of the steel beam of the scenario is
  0.2 mm, not about 1.2 mm.
\<close>

theorem beam_scenario_deflection_counterexample:
  "\<not> \<bar>max_deflection (projr (simply_supported_point_load steel_a36 2 1000 1 (1 / 20) (1 / 10)))
        - 12 / 10\<bar> \<le> 1 / 20"
  by (simp add: sspl_steel_scenario_raw)

text \<open>
  Claim C6, amended. For Steel A36 (\<open>E\<close> = 200 GPa, yield 250 MPa, density 7850, cost 1.50),
  \<open>simply_supported_point_load\<close> with span 2 m, load 1000 N at 1 m, width 0.05 m and
  height 0.1 m has \<open>I\<close> about 4.1667e-6 and returns a result with \<open>max_moment = 500\<close>,
  \<open>max_deflection\<close> about 0.2 mm, \<open>max_stress\<close> about 6.0 MPa, \<open>safety_factor\<close>
  about 41.7, \<open>weight\<close> about 78.5 kg and \<open>cost\<close> about 117.75; \<open>is_safe()\<close> is true
  of the result.
\<close>

theorem beam_scenario_values:
  "\<exists>r. simply_supported_point_load steel_a36 2 1000 1 (1 / 20) (1 / 10) = Inr r \<and>
     \<bar>(1 / 20) * (1 / 10) ^ 3 / 12 - 41667 / 10 ^ 10\<bar> \<le> (5 / 10 ^ 11 :: real) \<and>
     max_moment r = 500 \<and>
     \<bar>max_deflection r - 2 / 10\<bar> \<le> 1 / 20 \<and>
     \<bar>max_stress r - 6\<bar> \<le> 1 / 20 \<and>
     \<bar>safety_factor r - 417 / 10\<bar> \<le> 1 / 20 \<and>
     \<bar>weight r - 785 / 10\<bar> \<le> 1 / 20 \<and>
     \<bar>cost r - 11775 / 100\<bar> \<le> 1 / 200 \<and>
     is_safe r None"
  unfolding sspl_steel_scenario_raw
  by (simp add: is_safe_def power3_eq_cube)



end
